theory Spec2Isabelle
  imports Complex_Main
begin

section \<open>Readings, series and data frames\<close>

text \<open>
  The regime classifier, the strategy selection and the four strategies of
  \<^verbatim>\<open>src/new.py\<close> (the same functions, line for line, are in \<^verbatim>\<open>src/main.py\<close>) and the
  consensus strategy of \<^verbatim>\<open>src/two_out_of_three_strat_trending.py\<close>. Line numbers are
  those of \<^verbatim>\<open>src/new.py\<close> unless another file is named.

  The functions work on pandas series of floating-point readings. A reading is modelled
  as either a finite number or not-a-number, the value the indicator library puts in the
  bars of its lookback. Finite readings are idealised as reals: rounding is outside the
  model. Every comparison with not-a-number is false, as in Python.
\<close>

datatype pyfloat = NaN | Fin real

fun fgt :: "pyfloat \<Rightarrow> pyfloat \<Rightarrow> bool" where
  "fgt (Fin a) (Fin b) = (a > b)"
| "fgt _ _ = False"

fun flt :: "pyfloat \<Rightarrow> pyfloat \<Rightarrow> bool" where
  "flt (Fin a) (Fin b) = (a < b)"
| "flt _ _ = False"

fun fsub :: "pyfloat \<Rightarrow> pyfloat \<Rightarrow> pyfloat" where
  "fsub (Fin a) (Fin b) = Fin (a - b)"
| "fsub _ _ = NaN"

fun fadd :: "pyfloat \<Rightarrow> pyfloat \<Rightarrow> pyfloat" where
  "fadd (Fin a) (Fin b) = Fin (a + b)"
| "fadd _ _ = NaN"

fun fmul :: "pyfloat \<Rightarrow> pyfloat \<Rightarrow> pyfloat" where
  "fmul (Fin a) (Fin b) = Fin (a * b)"
| "fmul _ _ = NaN"

text \<open>
  A quotient by zero is an infinity or not-a-number in floating point. The only quotient
  of the source feeds a pandas rolling mean, which replaces infinities by not-a-number
  before it aggregates, so the quotient by zero is recorded as not-a-number.
\<close>

fun fdiv :: "pyfloat \<Rightarrow> pyfloat \<Rightarrow> pyfloat" where
  "fdiv (Fin a) (Fin b) = (if b = 0 then NaN else Fin (a / b))"
| "fdiv _ _ = NaN"

type_synonym series = "pyfloat list"

text \<open>A data frame maps a column name to its series; a missing column raises KeyError.\<close>

type_synonym dataframe = "string \<rightharpoonup> series"

datatype error = KeyError string | IndexError | ValueError | IndicatorError

definition and_then :: "error + 'a \<Rightarrow> ('a \<Rightarrow> error + 'b) \<Rightarrow> error + 'b" where
  "and_then m f = (case m of Inl e \<Rightarrow> Inl e | Inr x \<Rightarrow> f x)"

definition col :: "dataframe \<Rightarrow> string \<Rightarrow> error + series" where
  "col data name = (case data name of None \<Rightarrow> Inl (KeyError name) | Some s \<Rightarrow> Inr s)"

text \<open>\<^verbatim>\<open>s.iloc[-1]\<close>: the last reading; IndexError on an empty series.\<close>

definition iloc_last :: "series \<Rightarrow> error + pyfloat" where
  "iloc_last s = (if s = [] then Inl IndexError else Inr (last s))"

text \<open>
  Arithmetic of two series is row by row; a row that only one of the two series has
  is not-a-number in the result.
\<close>

fun series_binop :: "(pyfloat \<Rightarrow> pyfloat \<Rightarrow> pyfloat) \<Rightarrow> series \<Rightarrow> series \<Rightarrow> series" where
  "series_binop f [] [] = []"
| "series_binop f (x # xs) [] = NaN # series_binop f xs []"
| "series_binop f [] (y # ys) = NaN # series_binop f [] ys"
| "series_binop f (x # xs) (y # ys) = f x y # series_binop f xs ys"

text \<open>
  \<^verbatim>\<open>s.rolling(window=w, min_periods=m).mean()\<close>: at each bar, the mean of the readings
  that are numbers among the last \<open>w\<close> bars, when there are at least \<open>m\<close> of them (and at
  least one), not-a-number otherwise. \<open>min_periods\<close> defaults to the window; a negative
  window or \<open>min_periods\<close> above the window raises ValueError.

  The mean itself is computed by pandas in double precision, from a running sum over the
  bars that enter and leave the window: its value is rounded and need not be the exact
  mean, so two windows with the same exact mean can have different computed means. The
  computation is therefore a parameter of the model: a function of the window length, of
  the readings seen up to the bar and of the numbers in the window. Which bars have a
  mean at all is decided by the count of numbers in the window, as above.
\<close>

type_synonym mean_fn = "nat \<Rightarrow> series \<Rightarrow> real list \<Rightarrow> pyfloat"

fun numbers :: "series \<Rightarrow> real list" where
  "numbers [] = []"
| "numbers (NaN # xs) = numbers xs"
| "numbers (Fin v # xs) = v # numbers xs"

definition window_mean :: "mean_fn \<Rightarrow> nat \<Rightarrow> nat \<Rightarrow> series \<Rightarrow> series \<Rightarrow> pyfloat" where
  "window_mean fmean w minp seen ws =
     (let vs = numbers ws; nobs = length vs
      in if minp \<le> nobs \<and> 0 < nobs then fmean w seen vs else NaN)"

definition window_at :: "nat \<Rightarrow> series \<Rightarrow> nat \<Rightarrow> series" where
  "window_at w xs i = drop (Suc i - w) (take (Suc i) xs)"

definition rolling_mean :: "mean_fn \<Rightarrow> int \<Rightarrow> int option \<Rightarrow> series \<Rightarrow> error + series" where
  "rolling_mean fmean window min_periods xs =
     (let minp = (case min_periods of None \<Rightarrow> window | Some m \<Rightarrow> m)
      in if window < 0 \<or> minp < 0 \<or> window < minp then Inl ValueError
         else Inr (map (\<lambda>i. window_mean fmean (nat window) (nat minp) (take (Suc i) xs)
                                 (window_at (nat window) xs i))
                       [0..<length xs]))"

section \<open>The indicator library\<close>

text \<open>
  The indicator library (TA-Lib) is not part of the repository either: its functions are
  parameters of the model. Each takes the series and periods the source passes, in the
  source's order, and returns its series or fails.
\<close>

record talib =
  ADX :: "series \<Rightarrow> series \<Rightarrow> series \<Rightarrow> int \<Rightarrow> error + series"
  BBANDS :: "series \<Rightarrow> int \<Rightarrow> real \<Rightarrow> real \<Rightarrow> error + (series \<times> series \<times> series)"
  RSI :: "series \<Rightarrow> int \<Rightarrow> error + series"
  STOCH :: "series \<Rightarrow> series \<Rightarrow> series \<Rightarrow> int \<Rightarrow> int \<Rightarrow> int \<Rightarrow> error + (series \<times> series)"
  MACD :: "series \<Rightarrow> int \<Rightarrow> int \<Rightarrow> int \<Rightarrow> error + (series \<times> series \<times> series)"
  ATR :: "series \<Rightarrow> series \<Rightarrow> series \<Rightarrow> int \<Rightarrow> error + series"
  SAR :: "series \<Rightarrow> series \<Rightarrow> real \<Rightarrow> real \<Rightarrow> error + series"

section \<open>Regime classifier\<close>

definition ADX_THRESHOLD :: pyfloat where
  "ADX_THRESHOLD = Fin 25"

definition BBANDS_WIDTH_THRESHOLD :: pyfloat where
  "BBANDS_WIDTH_THRESHOLD = Fin 2"

text \<open>
  \<^verbatim>\<open>identify_market_condition\<close>, lines 81 to 94: the indicators, their smoothing and
  the latest smoothed values.
\<close>

definition latest_smoothed :: "mean_fn \<Rightarrow> talib \<Rightarrow> dataframe \<Rightarrow> int \<Rightarrow> int \<Rightarrow> int \<Rightarrow> error + (pyfloat \<times> pyfloat)" where
  "latest_smoothed fmean ta data adx_window bbands_window smoothing_window =
     and_then (col data ''High'') (\<lambda>high.
     and_then (col data ''Low'') (\<lambda>low.
     and_then (col data ''Close'') (\<lambda>close.
     and_then (ADX ta high low close adx_window) (\<lambda>adx.
     and_then (col data ''Close'') (\<lambda>close'.
     and_then (BBANDS ta close' bbands_window 2 2) (\<lambda>(upperband, middleband, lowerband).
     let bbands_width = series_binop fdiv (series_binop fsub upperband lowerband) middleband in
     and_then (rolling_mean fmean smoothing_window None adx) (\<lambda>smoothed_adx.
     and_then (rolling_mean fmean smoothing_window None bbands_width) (\<lambda>smoothed_bbands_width.
     and_then (iloc_last smoothed_adx) (\<lambda>latest_adx.
     and_then (iloc_last smoothed_bbands_width) (\<lambda>latest_bbands_width.
     Inr (latest_adx, latest_bbands_width)))))))))))"

text \<open>Lines 96 to 104: the decision on the two latest smoothed values.\<close>

definition market_condition_of :: "pyfloat \<Rightarrow> pyfloat \<Rightarrow> string" where
  "market_condition_of latest_adx latest_bbands_width =
     (if fgt latest_adx ADX_THRESHOLD \<and> fgt latest_bbands_width BBANDS_WIDTH_THRESHOLD
        then ''trending and volatile''
      else if fgt latest_adx ADX_THRESHOLD then ''trending''
      else if fgt latest_bbands_width BBANDS_WIDTH_THRESHOLD then ''volatile''
      else ''sideways'')"

definition identify_market_condition :: "mean_fn \<Rightarrow> talib \<Rightarrow> dataframe \<Rightarrow> int \<Rightarrow> int \<Rightarrow> int \<Rightarrow> error + string" where
  "identify_market_condition fmean ta data adx_window bbands_window smoothing_window =
     and_then (latest_smoothed fmean ta data adx_window bbands_window smoothing_window)
       (\<lambda>(latest_adx, latest_bbands_width).
          Inr (market_condition_of latest_adx latest_bbands_width))"

section \<open>Signals and reads shared by the strategies\<close>

datatype signal = Buy | Sell | Hold

text \<open>\<^verbatim>\<open>'buy' if c else 'sell'\<close>\<close>

definition vote :: "bool \<Rightarrow> signal" where
  "vote c = (if c then Buy else Sell)"

text \<open>\<^verbatim>\<open>data[name].iloc[-1]\<close>\<close>

definition latest :: "dataframe \<Rightarrow> string \<Rightarrow> error + pyfloat" where
  "latest data name = and_then (col data name) iloc_last"

text \<open>
  Comparisons of two reads, and Python's \<^verbatim>\<open>or\<close> and \<^verbatim>\<open>and\<close>: the right operand is
  read only when the left one does not decide.
\<close>

definition gt_of :: "error + pyfloat \<Rightarrow> error + pyfloat \<Rightarrow> error + bool" where
  "gt_of a b = and_then a (\<lambda>x. and_then b (\<lambda>y. Inr (fgt x y)))"

definition lt_of :: "error + pyfloat \<Rightarrow> error + pyfloat \<Rightarrow> error + bool" where
  "lt_of a b = and_then a (\<lambda>x. and_then b (\<lambda>y. Inr (flt x y)))"

definition py_or :: "error + bool \<Rightarrow> error + bool \<Rightarrow> error + bool" where
  "py_or a b = and_then a (\<lambda>x. if x then Inr True else b)"

definition py_and :: "error + bool \<Rightarrow> error + bool \<Rightarrow> error + bool" where
  "py_and a b = and_then a (\<lambda>x. if x then b else Inr False)"

section \<open>Sideways market strategy\<close>

text \<open>\<^verbatim>\<open>sideways_market_strategy\<close>, lines 138 to 140: the indicators.\<close>

definition sideways_indicators ::
  "talib \<Rightarrow> dataframe \<Rightarrow> int \<Rightarrow> int \<Rightarrow> int \<Rightarrow> int \<Rightarrow> int
     \<Rightarrow> error + (series \<times> series \<times> series \<times> series \<times> series \<times> series)" where
  "sideways_indicators ta data bbands_period rsi_period stochastic_period stochastic_slowk
       stochastic_slowd =
     and_then (col data ''Close'') (\<lambda>close.
     and_then (BBANDS ta close bbands_period 2 2) (\<lambda>(upperband, middleband, lowerband).
     and_then (col data ''Close'') (\<lambda>close'.
     and_then (RSI ta close' rsi_period) (\<lambda>rsi.
     and_then (col data ''High'') (\<lambda>high.
     and_then (col data ''Low'') (\<lambda>low.
     and_then (col data ''Close'') (\<lambda>close''.
     and_then (STOCH ta high low close'' stochastic_period stochastic_slowk stochastic_slowd)
       (\<lambda>(slowk, slowd).
     Inr (upperband, middleband, lowerband, rsi, slowk, slowd)))))))))"

text \<open>Lines 143 to 152: the thresholds and the trading logic.\<close>

definition sideways_logic ::
  "dataframe \<Rightarrow> series \<times> series \<times> series \<times> series \<times> series \<times> series \<Rightarrow> error + signal" where
  "sideways_logic data ind =
     (case ind of (upperband, middleband, lowerband, rsi, slowk, slowd) \<Rightarrow>
      let rsi_overbought = Fin 70; rsi_oversold = Fin 30;
          stochastic_overbought = Fin 80; stochastic_oversold = Fin 20
      in
      and_then
        (py_or (lt_of (latest data ''Close'') (iloc_last lowerband))
        (py_or (lt_of (iloc_last rsi) (Inr rsi_oversold))
               (py_and (lt_of (iloc_last slowk) (Inr stochastic_oversold))
                       (gt_of (iloc_last slowk) (iloc_last slowd)))))
        (\<lambda>buy_cond. if buy_cond then Inr Buy else
      and_then
        (py_or (gt_of (latest data ''Close'') (iloc_last upperband))
        (py_or (gt_of (iloc_last rsi) (Inr rsi_overbought))
               (py_and (gt_of (iloc_last slowk) (Inr stochastic_overbought))
                       (lt_of (iloc_last slowk) (iloc_last slowd)))))
        (\<lambda>sell_cond. if sell_cond then Inr Sell else Inr Hold)))"

definition sideways_market_strategy ::
  "talib \<Rightarrow> dataframe \<Rightarrow> int \<Rightarrow> int \<Rightarrow> int \<Rightarrow> int \<Rightarrow> int \<Rightarrow> error + signal" where
  "sideways_market_strategy ta data bbands_period rsi_period stochastic_period stochastic_slowk
       stochastic_slowd =
     and_then (sideways_indicators ta data bbands_period rsi_period stochastic_period
                 stochastic_slowk stochastic_slowd)
              (sideways_logic data)"

section \<open>Hybrid trend-following strategy\<close>

text \<open>\<^verbatim>\<open>hybrid_trend_following_strategy\<close>, lines 173 to 178: the indicators.\<close>

definition hybrid_indicators ::
  "mean_fn \<Rightarrow> talib \<Rightarrow> dataframe \<Rightarrow> int \<Rightarrow> int \<Rightarrow> int \<Rightarrow> int \<Rightarrow> int \<Rightarrow> int \<Rightarrow> int
     \<Rightarrow> error + (series \<times> series \<times> series \<times> series \<times> series \<times> series)" where
  "hybrid_indicators fmean ta data sma_short_window sma_long_window macd_fast macd_slow macd_signal
       adx_window atr_window =
     and_then (col data ''Close'') (\<lambda>close.
     and_then (rolling_mean fmean sma_short_window (Some 1) close) (\<lambda>sma_short.
     and_then (col data ''Close'') (\<lambda>close'.
     and_then (rolling_mean fmean sma_long_window (Some 1) close') (\<lambda>sma_long.
     and_then (col data ''Close'') (\<lambda>close''.
     and_then (MACD ta close'' macd_fast macd_slow macd_signal) (\<lambda>(macd, macdsignal, hist).
     and_then (col data ''High'') (\<lambda>high.
     and_then (col data ''Low'') (\<lambda>low.
     and_then (col data ''Close'') (\<lambda>close3.
     and_then (ADX ta high low close3 adx_window) (\<lambda>adx.
     and_then (col data ''High'') (\<lambda>high'.
     and_then (col data ''Low'') (\<lambda>low'.
     and_then (col data ''Close'') (\<lambda>close4.
     and_then (ATR ta high' low' close4 atr_window) (\<lambda>atr.
     Inr (sma_short, sma_long, macd, macdsignal, adx, atr)))))))))))))))"

text \<open>Lines 181 to 187: the three votes and the volatility flag.\<close>

definition hybrid_signals ::
  "series \<times> series \<times> series \<times> series \<times> series \<times> series \<Rightarrow> real \<Rightarrow> real
     \<Rightarrow> error + (signal \<times> signal \<times> signal \<times> bool)" where
  "hybrid_signals ind adx_threshold volatility_threshold =
     (case ind of (sma_short, sma_long, macd, macdsignal, adx, atr) \<Rightarrow>
      and_then (gt_of (iloc_last sma_short) (iloc_last sma_long)) (\<lambda>c1.
      let sma_signal = vote c1 in
      and_then (gt_of (iloc_last macd) (iloc_last macdsignal)) (\<lambda>c2.
      let macd_signal = vote c2 in
      and_then (gt_of (iloc_last adx) (Inr (Fin adx_threshold))) (\<lambda>c3.
      let adx_signal = vote c3 in
      and_then (iloc_last atr) (\<lambda>current_volatility.
      let is_volatile = fgt current_volatility (Fin volatility_threshold) in
      Inr (sma_signal, macd_signal, adx_signal, is_volatile))))))"

text \<open>Lines 190 to 209: the count of the votes and the rule the volatility selects.\<close>

definition hybrid_rule :: "signal \<times> signal \<times> signal \<times> bool \<Rightarrow> signal" where
  "hybrid_rule sg =
     (case sg of (sma_signal, macd_signal, adx_signal, is_volatile) \<Rightarrow>
      let signals = [sma_signal, macd_signal, adx_signal];
          buy_signals = count_list signals Buy;
          sell_signals = count_list signals Sell
      in if is_volatile then
           (if buy_signals \<ge> 2 then Buy
            else if sell_signals \<ge> 2 then Sell
            else Hold)
         else
           (if buy_signals = 3 then Buy
            else if sell_signals = 3 then Sell
            else Hold))"

definition hybrid_trend_following_strategy ::
  "mean_fn \<Rightarrow> talib \<Rightarrow> dataframe \<Rightarrow> int \<Rightarrow> int \<Rightarrow> int \<Rightarrow> int \<Rightarrow> int \<Rightarrow> int \<Rightarrow> real \<Rightarrow> int \<Rightarrow> real
     \<Rightarrow> error + signal" where
  "hybrid_trend_following_strategy fmean ta data sma_short_window sma_long_window macd_fast macd_slow
       macd_signal adx_window adx_threshold atr_window volatility_threshold =
     and_then (hybrid_indicators fmean ta data sma_short_window sma_long_window macd_fast macd_slow
                 macd_signal adx_window atr_window) (\<lambda>ind.
     and_then (hybrid_signals ind adx_threshold volatility_threshold) (\<lambda>sg.
     Inr (hybrid_rule sg)))"

section \<open>Consensus trend-following strategy\<close>

text \<open>
  \<^verbatim>\<open>consensus_trend_following_strategy\<close> of
  \<^verbatim>\<open>src/two_out_of_three_strat_trending.py\<close>, lines 19 to 29: each vote is taken right
  after its indicator.
\<close>

definition consensus_signals ::
  "mean_fn \<Rightarrow> talib \<Rightarrow> dataframe \<Rightarrow> int \<Rightarrow> int \<Rightarrow> int \<Rightarrow> int \<Rightarrow> int \<Rightarrow> int \<Rightarrow> real
     \<Rightarrow> error + (signal \<times> signal \<times> signal)" where
  "consensus_signals fmean ta data sma_short_window sma_long_window macd_fast macd_slow macd_signal
       adx_window adx_threshold =
     and_then (col data ''Close'') (\<lambda>close.
     and_then (rolling_mean fmean sma_short_window (Some 1) close) (\<lambda>sma_short.
     and_then (col data ''Close'') (\<lambda>close'.
     and_then (rolling_mean fmean sma_long_window (Some 1) close') (\<lambda>sma_long.
     and_then (gt_of (iloc_last sma_short) (iloc_last sma_long)) (\<lambda>c1.
     let sma_signal = vote c1 in
     and_then (col data ''Close'') (\<lambda>close''.
     and_then (MACD ta close'' macd_fast macd_slow macd_signal) (\<lambda>(macd, macdsignal, hist).
     and_then (gt_of (iloc_last macd) (iloc_last macdsignal)) (\<lambda>c2.
     let macd_signal = vote c2 in
     and_then (col data ''High'') (\<lambda>high.
     and_then (col data ''Low'') (\<lambda>low.
     and_then (col data ''Close'') (\<lambda>close3.
     and_then (ADX ta high low close3 adx_window) (\<lambda>adx.
     and_then (gt_of (iloc_last adx) (Inr (Fin adx_threshold))) (\<lambda>c3.
     let adx_signal = vote c3 in
     Inr (sma_signal, macd_signal, adx_signal))))))))))))))"

text \<open>Lines 32 to 42: the count of the votes and the two-out-of-three rule.\<close>

definition consensus_rule :: "signal \<times> signal \<times> signal \<Rightarrow> signal" where
  "consensus_rule sg =
     (case sg of (sma_signal, macd_signal, adx_signal) \<Rightarrow>
      let signals = [sma_signal, macd_signal, adx_signal];
          buy_signals = count_list signals Buy;
          sell_signals = count_list signals Sell
      in if buy_signals \<ge> 2 then Buy
         else if sell_signals \<ge> 2 then Sell
         else Hold)"

definition consensus_trend_following_strategy ::
  "mean_fn \<Rightarrow> talib \<Rightarrow> dataframe \<Rightarrow> int \<Rightarrow> int \<Rightarrow> int \<Rightarrow> int \<Rightarrow> int \<Rightarrow> int \<Rightarrow> real \<Rightarrow> error + signal" where
  "consensus_trend_following_strategy fmean ta data sma_short_window sma_long_window macd_fast
       macd_slow macd_signal adx_window adx_threshold =
     and_then (consensus_signals fmean ta data sma_short_window sma_long_window macd_fast macd_slow
                 macd_signal adx_window adx_threshold) (\<lambda>sg.
     Inr (consensus_rule sg))"

section \<open>Volatile market strategy\<close>

text \<open>The returned dictionary: \<^verbatim>\<open>stop_loss\<close> is a reading or Python's \<^verbatim>\<open>None\<close>.\<close>

record trade =
  action :: signal
  stop_loss :: "pyfloat option"

text \<open>\<^verbatim>\<open>volatile_market_strategy\<close>, lines 232 to 234: the indicators.\<close>

definition volatile_indicators ::
  "talib \<Rightarrow> dataframe \<Rightarrow> int \<Rightarrow> int \<Rightarrow> real \<Rightarrow> int
     \<Rightarrow> error + (series \<times> series \<times> series \<times> series \<times> series)" where
  "volatile_indicators ta data atr_period bbands_period bbands_std_dev rsi_period =
     and_then (col data ''High'') (\<lambda>high.
     and_then (col data ''Low'') (\<lambda>low.
     and_then (col data ''Close'') (\<lambda>close.
     and_then (ATR ta high low close atr_period) (\<lambda>atr.
     and_then (col data ''Close'') (\<lambda>close'.
     and_then (BBANDS ta close' bbands_period bbands_std_dev bbands_std_dev)
       (\<lambda>(upperband, middleband, lowerband).
     and_then (col data ''Close'') (\<lambda>close''.
     and_then (RSI ta close'' rsi_period) (\<lambda>rsi.
     Inr (atr, upperband, middleband, lowerband, rsi)))))))))"

text \<open>Lines 237 to 256: the four conditions, the latest ATR and the strategy logic.\<close>

definition volatile_logic ::
  "dataframe \<Rightarrow> series \<times> series \<times> series \<times> series \<times> series \<Rightarrow> real \<Rightarrow> real \<Rightarrow> real
     \<Rightarrow> error + trade" where
  "volatile_logic data ind rsi_overbought rsi_oversold atr_multiplier =
     (case ind of (atr, upperband, middleband, lowerband, rsi) \<Rightarrow>
      and_then (gt_of (iloc_last rsi) (Inr (Fin rsi_overbought))) (\<lambda>is_overbought.
      and_then (lt_of (iloc_last rsi) (Inr (Fin rsi_oversold))) (\<lambda>is_oversold.
      and_then (gt_of (latest data ''Close'') (iloc_last upperband)) (\<lambda>price_above_upper_band.
      and_then (lt_of (latest data ''Close'') (iloc_last lowerband)) (\<lambda>price_below_lower_band.
      and_then (iloc_last atr) (\<lambda>current_atr.
      if is_oversold \<and> price_below_lower_band then
        and_then (latest data ''Close'') (\<lambda>c.
        Inr \<lparr>action = Buy, stop_loss = Some (fsub c (fmul (Fin atr_multiplier) current_atr))\<rparr>)
      else if is_overbought \<and> price_above_upper_band then
        and_then (latest data ''Close'') (\<lambda>c.
        Inr \<lparr>action = Sell, stop_loss = Some (fadd c (fmul (Fin atr_multiplier) current_atr))\<rparr>)
      else Inr \<lparr>action = Hold, stop_loss = None\<rparr>))))))"

definition volatile_market_strategy ::
  "talib \<Rightarrow> dataframe \<Rightarrow> int \<Rightarrow> int \<Rightarrow> real \<Rightarrow> int \<Rightarrow> real \<Rightarrow> real \<Rightarrow> real \<Rightarrow> error + trade" where
  "volatile_market_strategy ta data atr_period bbands_period bbands_std_dev rsi_period
       rsi_overbought rsi_oversold atr_multiplier =
     and_then (volatile_indicators ta data atr_period bbands_period bbands_std_dev rsi_period)
       (\<lambda>ind. volatile_logic data ind rsi_overbought rsi_oversold atr_multiplier)"

section \<open>Default strategy\<close>

text \<open>\<^verbatim>\<open>default_strategy\<close>, lines 273 to 275: the indicators.\<close>

definition default_indicators ::
  "talib \<Rightarrow> dataframe \<Rightarrow> int \<Rightarrow> int \<Rightarrow> int \<Rightarrow> int \<Rightarrow> real \<Rightarrow> real
     \<Rightarrow> error + (series \<times> series \<times> series \<times> series)" where
  "default_indicators ta data macd_fast macd_slow macd_signal rsi_period sar_step sar_maximum =
     and_then (col data ''Close'') (\<lambda>close.
     and_then (MACD ta close macd_fast macd_slow macd_signal) (\<lambda>(macd, macdsignal, hist).
     and_then (col data ''Close'') (\<lambda>close'.
     and_then (RSI ta close' rsi_period) (\<lambda>rsi.
     and_then (col data ''High'') (\<lambda>high.
     and_then (col data ''Low'') (\<lambda>low.
     and_then (SAR ta high low sar_step sar_maximum) (\<lambda>sar.
     Inr (macd, macdsignal, rsi, sar))))))))"

text \<open>Lines 278 to 293: the six conditions and the consensus logic.\<close>

definition default_logic ::
  "dataframe \<Rightarrow> series \<times> series \<times> series \<times> series \<Rightarrow> real \<Rightarrow> real \<Rightarrow> error + signal" where
  "default_logic data ind rsi_overbought rsi_oversold =
     (case ind of (macd, macdsignal, rsi, sar) \<Rightarrow>
      and_then (latest data ''Close'') (\<lambda>last_price.
      and_then (gt_of (iloc_last macd) (iloc_last macdsignal)) (\<lambda>macd_cross_up.
      and_then (lt_of (iloc_last macd) (iloc_last macdsignal)) (\<lambda>macd_cross_down.
      and_then (lt_of (iloc_last rsi) (Inr (Fin rsi_oversold))) (\<lambda>rsi_is_oversold.
      and_then (gt_of (iloc_last rsi) (Inr (Fin rsi_overbought))) (\<lambda>rsi_is_overbought.
      and_then (gt_of (Inr last_price) (iloc_last sar)) (\<lambda>price_above_sar.
      and_then (lt_of (Inr last_price) (iloc_last sar)) (\<lambda>price_below_sar.
      if macd_cross_up \<and> rsi_is_oversold \<and> price_above_sar then Inr Buy
      else if macd_cross_down \<and> rsi_is_overbought \<and> price_below_sar then Inr Sell
      else Inr Hold))))))))"

definition default_strategy ::
  "talib \<Rightarrow> dataframe \<Rightarrow> int \<Rightarrow> int \<Rightarrow> int \<Rightarrow> int \<Rightarrow> real \<Rightarrow> real \<Rightarrow> real \<Rightarrow> real
     \<Rightarrow> error + signal" where
  "default_strategy ta data macd_fast macd_slow macd_signal rsi_period rsi_overbought
       rsi_oversold sar_step sar_maximum =
     and_then (default_indicators ta data macd_fast macd_slow macd_signal rsi_period sar_step
                 sar_maximum)
       (\<lambda>ind. default_logic data ind rsi_overbought rsi_oversold)"

section \<open>Strategy selection\<close>

text \<open>
  \<^verbatim>\<open>select_strategy_based_on_condition\<close> returns one of the four strategy functions of
  the module; the datatype names them.
\<close>

datatype strategy =
  Hybrid_trend_following_strategy
| Sideways_market_strategy
| Volatile_market_strategy
| Default_strategy

definition select_strategy_based_on_condition :: "string \<Rightarrow> strategy" where
  "select_strategy_based_on_condition market_condition =
     (if market_condition = ''trending'' then Hybrid_trend_following_strategy
      else if market_condition = ''sideways'' then Sideways_market_strategy
      else if market_condition = ''volatile'' then Volatile_market_strategy
      else Default_strategy)"

text \<open>
  \<^verbatim>\<open>trading_strategy(data)\<close>: the selected function called on the data alone, every
  other parameter at the default of its signature. Three strategies return a signal,
  the volatile one a dictionary.
\<close>

datatype outcome = Plain signal | With_stop trade

definition map_result :: "('a \<Rightarrow> 'b) \<Rightarrow> error + 'a \<Rightarrow> error + 'b" where
  "map_result f m = and_then m (\<lambda>x. Inr (f x))"

fun call_strategy :: "strategy \<Rightarrow> mean_fn \<Rightarrow> talib \<Rightarrow> dataframe \<Rightarrow> error + outcome" where
  "call_strategy Hybrid_trend_following_strategy fmean ta data =
     map_result Plain (hybrid_trend_following_strategy fmean ta data 50 200 12 26 9 14 25 14 1)"
| "call_strategy Sideways_market_strategy fmean ta data =
     map_result Plain (sideways_market_strategy ta data 20 14 14 3 3)"
| "call_strategy Volatile_market_strategy fmean ta data =
     map_result With_stop (volatile_market_strategy ta data 14 20 2 14 70 30 (3/2))"
| "call_strategy Default_strategy fmean ta data =
     map_result Plain (default_strategy ta data 12 26 9 14 70 30 (2/100) (2/10))"

section \<open>A constant indicator library for examples\<close>

text \<open>
  An indicator library for the examples below: every indicator is constant at a chosen
  reading and has one value per bar of its input.
\<close>

record readings =
  adx_r :: pyfloat
  upper_r :: pyfloat
  middle_r :: pyfloat
  lower_r :: pyfloat
  rsi_r :: pyfloat
  slowk_r :: pyfloat
  slowd_r :: pyfloat
  macd_r :: pyfloat
  macdsignal_r :: pyfloat
  atr_r :: pyfloat
  sar_r :: pyfloat

definition const_series :: "pyfloat \<Rightarrow> series \<Rightarrow> series" where
  "const_series v xs = map (\<lambda>x. v) xs"

definition const_talib :: "readings \<Rightarrow> talib" where
  "const_talib r =
     \<lparr>ADX = (\<lambda>h l c w. Inr (const_series (adx_r r) c)),
      BBANDS = (\<lambda>c w up dn.
         Inr (const_series (upper_r r) c, const_series (middle_r r) c, const_series (lower_r r) c)),
      RSI = (\<lambda>c w. Inr (const_series (rsi_r r) c)),
      STOCH = (\<lambda>h l c fk sk sd. Inr (const_series (slowk_r r) c, const_series (slowd_r r) c)),
      MACD = (\<lambda>c f s sg.
         Inr (const_series (macd_r r) c, const_series (macdsignal_r r) c,
              const_series (fsub (macd_r r) (macdsignal_r r)) c)),
      ATR = (\<lambda>h l c w. Inr (const_series (atr_r r) c)),
      SAR = (\<lambda>h l a m. Inr (const_series (sar_r r) h))\<rparr>"

text \<open>The mean without rounding, for the examples: every reading in them is a small integer
  or a half, on which the double-precision mean is exact.\<close>

definition exact_mean :: mean_fn where
  "exact_mean w seen vs = Fin (sum_list vs / real (length vs))"

text \<open>
  A frame with the three columns the strategies read, and the frame of \<open>n\<close> bars whose
  high, low and close are all the price \<open>p\<close>.
\<close>

definition frame :: "series \<Rightarrow> series \<Rightarrow> series \<Rightarrow> dataframe" where
  "frame high low close = [''High'' \<mapsto> high, ''Low'' \<mapsto> low, ''Close'' \<mapsto> close]"

definition flat_frame :: "nat \<Rightarrow> real \<Rightarrow> dataframe" where
  "flat_frame n p = frame (replicate n (Fin p)) (replicate n (Fin p)) (replicate n (Fin p))"

definition calm_readings :: readings where
  "calm_readings =
     \<lparr>adx_r = Fin 20, upper_r = Fin 102, middle_r = Fin 100, lower_r = Fin 98,
      rsi_r = Fin 50, slowk_r = Fin 50, slowd_r = Fin 50, macd_r = Fin 0,
      macdsignal_r = Fin 0, atr_r = Fin (1/2), sar_r = Fin 100\<rparr>"

text \<open>
  The readings of a window that lies inside every lookback: the indicator library has no
  value yet and returns not-a-number throughout.
\<close>

definition warmup_readings :: readings where
  "warmup_readings =
     \<lparr>adx_r = NaN, upper_r = NaN, middle_r = NaN, lower_r = NaN, rsi_r = NaN, slowk_r = NaN,
      slowd_r = NaN, macd_r = NaN, macdsignal_r = NaN, atr_r = NaN, sar_r = NaN\<rparr>"

section \<open>Basic facts about the reads\<close>

lemma and_then_Inr [simp]: "and_then (Inr x) f = f x"
  by (simp add: and_then_def)

lemma and_then_Inl [simp]: "and_then (Inl e) f = Inl e"
  by (simp add: and_then_def)

lemma and_then_eq_Inr: "and_then m f = Inr y \<longleftrightarrow> (\<exists>x. m = Inr x \<and> f x = Inr y)"
  by (cases m) simp_all

lemma col_Some [simp]: "data name = Some s \<Longrightarrow> col data name = Inr s"
  by (simp add: col_def)

lemma iloc_last_nonempty [simp]: "s \<noteq> [] \<Longrightarrow> iloc_last s = Inr (last s)"
  by (simp add: iloc_last_def)

lemma latest_nonempty [simp]:
  "data name = Some s \<Longrightarrow> s \<noteq> [] \<Longrightarrow> latest data name = Inr (last s)"
  by (simp add: latest_def)

lemma gt_of_Inr [simp]: "gt_of (Inr x) (Inr y) = Inr (fgt x y)"
  by (simp add: gt_of_def)

lemma lt_of_Inr [simp]: "lt_of (Inr x) (Inr y) = Inr (flt x y)"
  by (simp add: lt_of_def)

lemma py_or_Inr [simp]: "py_or (Inr x) (Inr y) = Inr (x \<or> y)"
  by (simp add: py_or_def)

lemma py_and_Inr [simp]: "py_and (Inr x) (Inr y) = Inr (x \<and> y)"
  by (simp add: py_and_def)

lemma frame_cols [simp]:
  "frame h l c ''High'' = Some h"
  "frame h l c ''Low'' = Some l"
  "frame h l c ''Close'' = Some c"
  by (simp_all add: frame_def)

lemma const_talib_sel [simp]:
  "ADX (const_talib r) h l c w = Inr (const_series (adx_r r) c)"
  "BBANDS (const_talib r) c w up dn =
     Inr (const_series (upper_r r) c, const_series (middle_r r) c, const_series (lower_r r) c)"
  "RSI (const_talib r) c w = Inr (const_series (rsi_r r) c)"
  "STOCH (const_talib r) h l c fk sk sd =
     Inr (const_series (slowk_r r) c, const_series (slowd_r r) c)"
  "MACD (const_talib r) c f s sg =
     Inr (const_series (macd_r r) c, const_series (macdsignal_r r) c,
          const_series (fsub (macd_r r) (macdsignal_r r)) c)"
  "ATR (const_talib r) h l c w = Inr (const_series (atr_r r) c)"
  "SAR (const_talib r) h l a m = Inr (const_series (sar_r r) h)"
  by (simp_all add: const_talib_def)

subsection \<open>Rolling means\<close>

lemma numbers_replicate: "numbers (replicate k (Fin c)) = replicate k c"
  by (induction k) simp_all

lemma exact_mean_flat: "0 < k \<Longrightarrow> exact_mean w seen (replicate k c) = Fin c"
  by (simp add: exact_mean_def sum_list_replicate)

lemma window_mean_replicate:
  assumes "\<And>seen k. 0 < k \<Longrightarrow> fmean w seen (replicate k c) = Fin c"
    and "0 < k" and "minp \<le> k"
  shows "window_mean fmean w minp seen (replicate k (Fin c)) = Fin c"
  using assms by (simp add: window_mean_def numbers_replicate)

lemma window_at_replicate:
  "i < n \<Longrightarrow> window_at w (replicate n x) i = replicate (Suc i - (Suc i - w)) x"
  unfolding window_at_def take_replicate drop_replicate by (simp add: min_def)

text \<open>
  The simple moving average of a flat series is the series itself, for every computation
  of the mean that is exact on flat windows.
\<close>

lemma rolling_mean_flat:
  assumes "0 < w"
    and flat: "\<And>seen k. 0 < k \<Longrightarrow> fmean (nat w) seen (replicate k c) = Fin c"
  shows "rolling_mean fmean w (Some 1) (replicate n (Fin c)) = Inr (replicate n (Fin c))"
proof -
  let ?xs = "replicate n (Fin c)"
  have "window_mean fmean (nat w) (nat 1) (take (Suc i) ?xs) (window_at (nat w) ?xs i) = Fin c"
    if "i < n" for i
  proof -
    have "0 < Suc i - (Suc i - nat w)" using assms(1) by auto
    then show ?thesis
      using that flat by (simp add: window_at_replicate window_mean_replicate)
  qed
  then have "map (\<lambda>i. window_mean fmean (nat w) (nat 1) (take (Suc i) ?xs)
                        (window_at (nat w) ?xs i)) [0..<n]
             = map (\<lambda>i. Fin c) [0..<n]"
    by (intro map_cong) auto
  also have "\<dots> = replicate n (Fin c)"
    by (simp add: map_replicate_const)
  finally show ?thesis
    using assms(1) by (simp add: rolling_mean_def)
qed

lemma numbers_length_NaN: "NaN \<in> set ws \<Longrightarrow> length (numbers ws) < length ws"
proof (induction ws rule: numbers.induct)
  case 1
  then show ?case by simp
next
  case (2 xs)
  have "length (numbers xs) \<le> length xs"
    by (induction xs rule: numbers.induct) simp_all
  then show ?case by simp
next
  case (3 v xs)
  then show ?case by simp
qed

lemma window_at_last:
  "xs \<noteq> [] \<Longrightarrow> 0 < w \<Longrightarrow> last xs \<in> set (window_at w xs (length xs - 1))
      \<and> length (window_at w xs (length xs - 1)) \<le> w"
  by (cases xs rule: rev_cases) (auto simp: window_at_def)

text \<open>
  With \<open>min_periods\<close> at its default, a series that ends in not-a-number has a rolling
  mean that ends in not-a-number.
\<close>

lemma rolling_mean_last_NaN:
  assumes "rolling_mean fmean w None xs = Inr ys" and "0 < w" and "xs \<noteq> []"
    and "last xs = NaN"
  shows "ys \<noteq> [] \<and> last ys = NaN"
proof -
  let ?ws = "window_at (nat w) xs (length xs - 1)"
  let ?seen = "take (Suc (length xs - 1)) xs"
  from assms have ys: "ys = map (\<lambda>i. window_mean fmean (nat w) (nat w) (take (Suc i) xs)
                            (window_at (nat w) xs i)) [0..<length xs]"
    by (simp add: rolling_mean_def split: if_splits)
  from assms have "NaN \<in> set ?ws" and "length ?ws \<le> nat w"
    using window_at_last [of xs "nat w"] by auto
  then have "length (numbers ?ws) < nat w"
    using numbers_length_NaN [of ?ws] by simp
  then have "window_mean fmean (nat w) (nat w) ?seen ?ws = NaN"
    by (simp add: window_mean_def)
  moreover have "ys \<noteq> []" using ys assms(3) by simp
  moreover have "last ys = window_mean fmean (nat w) (nat w) ?seen ?ws"
    using ys assms(3) by (simp add: last_map)
  ultimately show ?thesis by simp
qed

section \<open>The regime classifier decides on the two latest smoothed values\<close>

text \<open>
  Claim C1. Whenever the columns are present, the indicator library returns its series
  and the two smoothed series are not empty, \<^verbatim>\<open>identify_market_condition\<close> returns exactly
  one of four regimes, decided in this order on the last smoothed ADX and the last smoothed
  Bollinger width ratio: both above their thresholds (25 and 2.0) gives
  \<^verbatim>\<open>'trending and volatile'\<close>; only the ADX above 25 gives \<^verbatim>\<open>'trending'\<close>; only the
  width above 2.0 gives \<^verbatim>\<open>'volatile'\<close>; neither gives \<^verbatim>\<open>'sideways'\<close>.
\<close>

theorem identify_market_condition_decision:
  assumes "data ''High'' = Some high" and "data ''Low'' = Some low"
    and "data ''Close'' = Some close"
    and "ADX ta high low close adx_window = Inr adx"
    and "BBANDS ta close bbands_window 2 2 = Inr (upperband, middleband, lowerband)"
    and "rolling_mean fmean smoothing_window None adx = Inr smoothed_adx"
    and "rolling_mean fmean smoothing_window None
           (series_binop fdiv (series_binop fsub upperband lowerband) middleband)
         = Inr smoothed_bbands_width"
    and "smoothed_adx \<noteq> []" and "smoothed_bbands_width \<noteq> []"
  shows "(fgt (last smoothed_adx) (Fin 25) \<and> fgt (last smoothed_bbands_width) (Fin 2) \<longrightarrow>
            identify_market_condition fmean ta data adx_window bbands_window smoothing_window
              = Inr ''trending and volatile'') \<and>
         (fgt (last smoothed_adx) (Fin 25) \<and> \<not> fgt (last smoothed_bbands_width) (Fin 2) \<longrightarrow>
            identify_market_condition fmean ta data adx_window bbands_window smoothing_window
              = Inr ''trending'') \<and>
         (\<not> fgt (last smoothed_adx) (Fin 25) \<and> fgt (last smoothed_bbands_width) (Fin 2) \<longrightarrow>
            identify_market_condition fmean ta data adx_window bbands_window smoothing_window
              = Inr ''volatile'') \<and>
         (\<not> fgt (last smoothed_adx) (Fin 25) \<and> \<not> fgt (last smoothed_bbands_width) (Fin 2) \<longrightarrow>
            identify_market_condition fmean ta data adx_window bbands_window smoothing_window
              = Inr ''sideways'')"
  using assms
  by (simp add: identify_market_condition_def latest_smoothed_def market_condition_of_def
        ADX_THRESHOLD_def BBANDS_WIDTH_THRESHOLD_def)

text \<open>
  Five flat bars, a constant ADX of 30 and bands 400, 100, 100 (width ratio 3): both
  smoothed values exceed their thresholds.
\<close>

theorem identify_market_condition_decision_witness:
  "fgt (last [NaN, NaN, NaN, NaN, Fin 30]) (Fin 25) \<and>
   fgt (last [NaN, NaN, NaN, NaN, Fin 3]) (Fin 2) \<and>
   identify_market_condition exact_mean
      (const_talib (calm_readings\<lparr>adx_r := Fin 30, upper_r := Fin 400, lower_r := Fin 100\<rparr>))
      (flat_frame 5 100) 14 20 5 = Inr ''trending and volatile''"
proof -
  let ?ta = "const_talib (calm_readings\<lparr>adx_r := Fin 30, upper_r := Fin 400, lower_r := Fin 100\<rparr>)"
  let ?p = "replicate 5 (Fin 100)"
  have h: "flat_frame 5 100 ''High'' = Some ?p" and l: "flat_frame 5 100 ''Low'' = Some ?p"
    and c: "flat_frame 5 100 ''Close'' = Some ?p"
    by (simp_all add: flat_frame_def)
  have adx: "ADX ?ta ?p ?p ?p 14 = Inr (replicate 5 (Fin 30))"
    by (simp add: const_series_def calm_readings_def)
  have bb: "BBANDS ?ta ?p 20 2 2
            = Inr (replicate 5 (Fin 400), replicate 5 (Fin 100), replicate 5 (Fin 100))"
    by (simp add: const_series_def calm_readings_def)
  have sa: "rolling_mean exact_mean 5 None (replicate 5 (Fin 30)) = Inr [NaN, NaN, NaN, NaN, Fin 30]"
    by code_simp
  have sw: "rolling_mean exact_mean 5 None (series_binop fdiv (series_binop fsub (replicate 5 (Fin 400))
              (replicate 5 (Fin 100))) (replicate 5 (Fin 100))) = Inr [NaN, NaN, NaN, NaN, Fin 3]"
    by code_simp
  show ?thesis
    using identify_market_condition_decision [OF h l c adx bb sa sw] by simp
qed

section \<open>The strategy selection is total\<close>

text \<open>
  Claim C2. \<^verbatim>\<open>select_strategy_based_on_condition\<close> is defined on every value:
  \<^verbatim>\<open>'trending'\<close> selects the hybrid trend-following strategy, \<^verbatim>\<open>'sideways'\<close> the
  sideways (mean-reversion) strategy, \<^verbatim>\<open>'volatile'\<close> the volatile-market strategy, and
  every other value, \<^verbatim>\<open>'trending and volatile'\<close> among them, the default strategy
  through the final \<^verbatim>\<open>else\<close> branch.
\<close>

theorem select_strategy_total:
  "select_strategy_based_on_condition ''trending'' = Hybrid_trend_following_strategy \<and>
   select_strategy_based_on_condition ''sideways'' = Sideways_market_strategy \<and>
   select_strategy_based_on_condition ''volatile'' = Volatile_market_strategy \<and>
   select_strategy_based_on_condition ''trending and volatile'' = Default_strategy \<and>
   (\<forall>c. c \<noteq> ''trending'' \<and> c \<noteq> ''sideways'' \<and> c \<noteq> ''volatile'' \<longrightarrow>
        select_strategy_based_on_condition c = Default_strategy)"
  by (simp add: select_strategy_based_on_condition_def)

theorem select_strategy_total_witness:
  "''ranging'' \<noteq> ''trending'' \<and> ''ranging'' \<noteq> ''sideways'' \<and> ''ranging'' \<noteq> ''volatile'' \<and>
   select_strategy_based_on_condition ''ranging'' = Default_strategy"
  using select_strategy_total by simp

section \<open>The hybrid trend-following strategy\<close>

lemma hybrid_signals_nonempty:
  assumes "sma_short \<noteq> []" "sma_long \<noteq> []" "macd \<noteq> []" "macdsignal \<noteq> []" "adx \<noteq> []"
    "atr \<noteq> []"
  shows "hybrid_signals (sma_short, sma_long, macd, macdsignal, adx, atr) adx_threshold
           volatility_threshold =
         Inr (vote (fgt (last sma_short) (last sma_long)),
              vote (fgt (last macd) (last macdsignal)),
              vote (fgt (last adx) (Fin adx_threshold)),
              fgt (last atr) (Fin volatility_threshold))"
  using assms by (simp add: hybrid_signals_def)

lemma hybrid_rule_unanimous:
  "hybrid_rule (vote a, vote b, vote c, False) =
     (if a \<and> b \<and> c then Buy else if \<not> a \<and> \<not> b \<and> \<not> c then Sell else Hold)"
  by (simp add: hybrid_rule_def vote_def)

lemma hybrid_rule_majority:
  "hybrid_rule (vote a, vote b, vote c, True) =
     (if (a \<and> b) \<or> (a \<and> c) \<or> (b \<and> c) then Buy else Sell)"
  by (simp add: hybrid_rule_def vote_def)

text \<open>
  Claim C3. When the latest ATR is not greater than the volatility threshold,
  \<^verbatim>\<open>hybrid_trend_following_strategy\<close> returns \<^verbatim>\<open>'buy'\<close> exactly when the SMA, MACD and
  ADX votes are all \<^verbatim>\<open>'buy'\<close>, \<^verbatim>\<open>'sell'\<close> exactly when all three are \<^verbatim>\<open>'sell'\<close>, and
  \<^verbatim>\<open>'hold'\<close> exactly when one vote dissents.
\<close>

theorem hybrid_three_of_three:
  assumes "hybrid_indicators fmean ta data sma_short_window sma_long_window macd_fast macd_slow
             macd_signal adx_window atr_window
           = Inr (sma_short, sma_long, macd, macdsignal, adx, atr)"
    and "sma_short \<noteq> []" and "sma_long \<noteq> []" and "macd \<noteq> []" and "macdsignal \<noteq> []"
    and "adx \<noteq> []" and "atr \<noteq> []"
    and "\<not> fgt (last atr) (Fin volatility_threshold)"
    and "sma_signal = vote (fgt (last sma_short) (last sma_long))"
    and "macd_vote = vote (fgt (last macd) (last macdsignal))"
    and "adx_signal = vote (fgt (last adx) (Fin adx_threshold))"
    and "result = hybrid_trend_following_strategy fmean ta data sma_short_window sma_long_window
                    macd_fast macd_slow macd_signal adx_window adx_threshold atr_window
                    volatility_threshold"
  shows "(result = Inr Buy \<longleftrightarrow> sma_signal = Buy \<and> macd_vote = Buy \<and> adx_signal = Buy) \<and>
         (result = Inr Sell \<longleftrightarrow> sma_signal = Sell \<and> macd_vote = Sell \<and> adx_signal = Sell) \<and>
         (result = Inr Hold \<longleftrightarrow> sma_signal \<noteq> macd_vote \<or> macd_vote \<noteq> adx_signal)"
  using assms
  by (simp add: hybrid_trend_following_strategy_def hybrid_signals_nonempty
        hybrid_rule_unanimous) (auto simp: vote_def)

text \<open>
  Three rising bars with windows 2 and 3: the short mean 5/2 is above the long mean 2,
  the MACD is above its signal, the ADX above 25 and the ATR 1/2 below the threshold 1.
\<close>

lemma rising_indicators:
  "hybrid_indicators exact_mean (const_talib (calm_readings\<lparr>macd_r := Fin 1, adx_r := Fin 30\<rparr>))
        (frame [Fin 1, Fin 2, Fin 3] [Fin 1, Fin 2, Fin 3] [Fin 1, Fin 2, Fin 3]) 2 3 12 26 9 14 14
      = Inr ([Fin 1, Fin (3/2), Fin (5/2)], [Fin 1, Fin (3/2), Fin 2],
             [Fin 1, Fin 1, Fin 1], [Fin 0, Fin 0, Fin 0], [Fin 30, Fin 30, Fin 30],
             [Fin (1/2), Fin (1/2), Fin (1/2)])"
proof -
  have s: "rolling_mean exact_mean 2 (Some 1) [Fin 1, Fin 2, Fin 3] = Inr [Fin 1, Fin (3/2), Fin (5/2)]"
    by code_simp
  have l: "rolling_mean exact_mean 3 (Some 1) [Fin 1, Fin 2, Fin 3] = Inr [Fin 1, Fin (3/2), Fin 2]"
    by code_simp
  show ?thesis
    by (simp add: hybrid_indicators_def s l const_series_def calm_readings_def)
qed

theorem hybrid_three_of_three_witness:
  "\<not> fgt (last [Fin (1/2), Fin (1/2), Fin (1/2)]) (Fin 1) \<and>
   vote (fgt (last [Fin 1, Fin (3/2), Fin (5/2)]) (last [Fin 1, Fin (3/2), Fin 2])) = Buy \<and>
   vote (fgt (last [Fin 1, Fin 1, Fin 1]) (last [Fin 0, Fin 0, Fin 0])) = Buy \<and>
   vote (fgt (last [Fin 30, Fin 30, Fin 30]) (Fin 25)) = Buy \<and>
   hybrid_trend_following_strategy exact_mean
     (const_talib (calm_readings\<lparr>macd_r := Fin 1, adx_r := Fin 30\<rparr>))
     (frame [Fin 1, Fin 2, Fin 3] [Fin 1, Fin 2, Fin 3] [Fin 1, Fin 2, Fin 3])
     2 3 12 26 9 14 25 14 1 = Inr Buy"
  using hybrid_three_of_three [OF rising_indicators, where volatility_threshold = 1
      and adx_threshold = 25, OF _ _ _ _ _ _ _ refl refl refl refl]
  by (simp add: vote_def)


lemma hybrid_signals_votes:
  assumes "hybrid_signals (sma_short, sma_long, macd, macdsignal, adx, atr) adx_threshold
             volatility_threshold = Inr (s1, s2, s3, v)"
  shows "\<exists>a b c. s1 = vote a \<and> s2 = vote b \<and> s3 = vote c \<and> atr \<noteq> [] \<and>
            v = fgt (last atr) (Fin volatility_threshold)"
  using assms
  by (auto simp: hybrid_signals_def and_then_eq_Inr Let_def iloc_last_def split: if_splits)

lemma consensus_signals_votes:
  assumes "consensus_signals fmean ta data sma_short_window sma_long_window macd_fast macd_slow
             macd_signal adx_window adx_threshold = Inr (s1, s2, s3)"
  shows "\<exists>a b c. s1 = vote a \<and> s2 = vote b \<and> s3 = vote c"
  using assms
  by (auto simp: consensus_signals_def and_then_eq_Inr Let_def split: prod.splits)

lemma consensus_rule_votes:
  "consensus_rule (vote a, vote b, vote c) =
     (if (a \<and> b) \<or> (a \<and> c) \<or> (b \<and> c) then Buy else Sell)"
  by (simp add: consensus_rule_def vote_def)

lemma count_votes:
  "count_list [vote a, vote b, vote c] Buy + count_list [vote a, vote b, vote c] Sell = 3"
  by (simp add: vote_def)

lemma hybrid_votes_total:
  assumes "hybrid_signals (sma_short, sma_long, macd, macdsignal, adx, atr) adx_threshold
             volatility_threshold = Inr (s1, s2, s3, v)"
  shows "count_list [s1, s2, s3] Buy + count_list [s1, s2, s3] Sell = 3"
proof -
  from hybrid_signals_votes [OF assms] obtain a b c where
    "s1 = vote a" "s2 = vote b" "s3 = vote c"
    by auto
  then show ?thesis by (simp only: count_votes)
qed

lemma consensus_votes_total:
  assumes "consensus_signals fmean ta data sma_short_window sma_long_window macd_fast macd_slow
             macd_signal adx_window adx_threshold = Inr (s1, s2, s3)"
  shows "count_list [s1, s2, s3] Buy + count_list [s1, s2, s3] Sell = 3"
proof -
  from consensus_signals_votes [OF assms] obtain a b c where
    "s1 = vote a" "s2 = vote b" "s3 = vote c"
    by auto
  then show ?thesis by (simp only: count_votes)
qed

lemma flat_indicators:
  assumes "0 < sma_short_window" and "0 < sma_long_window"
    and "\<And>w seen k. 0 < k \<Longrightarrow> fmean w seen (replicate k p) = Fin p"
  shows "hybrid_indicators fmean (const_talib r) (flat_frame n p) sma_short_window
           sma_long_window macd_fast macd_slow macd_signal adx_window atr_window
         = Inr (replicate n (Fin p), replicate n (Fin p), replicate n (macd_r r),
                replicate n (macdsignal_r r), replicate n (adx_r r), replicate n (atr_r r))"
  using assms
  by (simp add: hybrid_indicators_def flat_frame_def rolling_mean_flat const_series_def)

text \<open>
  Claim C4. When the latest ATR is greater than the volatility threshold,
  \<^verbatim>\<open>hybrid_trend_following_strategy\<close> follows the majority of the three votes: two or
  three \<^verbatim>\<open>'buy'\<close> votes give \<^verbatim>\<open>'buy'\<close>, one \<^verbatim>\<open>'buy'\<close> vote (two \<^verbatim>\<open>'sell'\<close> votes) gives
  \<^verbatim>\<open>'sell'\<close>, and the same with the two sides exchanged.
\<close>

theorem hybrid_two_of_three:
  assumes "hybrid_indicators fmean ta data sma_short_window sma_long_window macd_fast macd_slow
             macd_signal adx_window atr_window
           = Inr (sma_short, sma_long, macd, macdsignal, adx, atr)"
    and "sma_short \<noteq> []" and "sma_long \<noteq> []" and "macd \<noteq> []" and "macdsignal \<noteq> []"
    and "adx \<noteq> []" and "atr \<noteq> []"
    and "fgt (last atr) (Fin volatility_threshold)"
    and "signals = [vote (fgt (last sma_short) (last sma_long)),
                    vote (fgt (last macd) (last macdsignal)),
                    vote (fgt (last adx) (Fin adx_threshold))]"
    and "result = hybrid_trend_following_strategy fmean ta data sma_short_window sma_long_window
                    macd_fast macd_slow macd_signal adx_window adx_threshold atr_window
                    volatility_threshold"
  shows "(count_list signals Buy = 2 \<or> count_list signals Buy = 3 \<longrightarrow> result = Inr Buy) \<and>
         (count_list signals Buy = 1 \<longrightarrow> count_list signals Sell = 2 \<and> result = Inr Sell) \<and>
         (count_list signals Sell = 2 \<or> count_list signals Sell = 3 \<longrightarrow> result = Inr Sell) \<and>
         (count_list signals Sell = 1 \<longrightarrow> count_list signals Buy = 2 \<and> result = Inr Buy)"
  using assms
  by (simp add: hybrid_trend_following_strategy_def hybrid_signals_nonempty
        hybrid_rule_majority) (auto simp: vote_def)

text \<open>
  250 flat bars and an ATR of 2: the SMA vote is \<^verbatim>\<open>'sell'\<close>, the MACD and ADX votes are
  \<^verbatim>\<open>'buy'\<close>, and the majority buys.
\<close>

theorem hybrid_two_of_three_witness:
  "fgt (last (replicate 250 (Fin 2))) (Fin 1) \<and>
   count_list [vote (fgt (last (replicate 250 (Fin 100))) (last (replicate 250 (Fin 100)))),
               vote (fgt (last (replicate 250 (Fin 1))) (last (replicate 250 (Fin 0)))),
               vote (fgt (last (replicate 250 (Fin 30))) (Fin 25))] Buy = 2 \<and>
   hybrid_trend_following_strategy exact_mean
     (const_talib (calm_readings\<lparr>macd_r := Fin 1, adx_r := Fin 30, atr_r := Fin 2\<rparr>))
     (flat_frame 250 100) 50 200 12 26 9 14 25 14 1 = Inr Buy"
proof -
  have ind: "hybrid_indicators exact_mean
      (const_talib (calm_readings\<lparr>macd_r := Fin 1, adx_r := Fin 30, atr_r := Fin 2\<rparr>))
      (flat_frame 250 100) 50 200 12 26 9 14 14
    = Inr (replicate 250 (Fin 100), replicate 250 (Fin 100), replicate 250 (Fin 1),
           replicate 250 (Fin 0), replicate 250 (Fin 30), replicate 250 (Fin 2))"
    by (simp add: flat_indicators exact_mean_flat calm_readings_def)
  show ?thesis
    using hybrid_two_of_three [OF ind, where volatility_threshold = 1 and adx_threshold = 25,
        OF _ _ _ _ _ _ _ refl refl]
    by (simp add: vote_def)
qed


text \<open>
  Claim C10. Under the two-out-of-three rule the result is never \<^verbatim>\<open>'hold'\<close>: neither
  from \<^verbatim>\<open>hybrid_trend_following_strategy\<close> when the latest ATR exceeds the volatility
  threshold, nor ever from \<^verbatim>\<open>consensus_trend_following_strategy\<close>. Each vote is
  \<^verbatim>\<open>'buy'\<close> or \<^verbatim>\<open>'sell'\<close>: the two counts add up to 3, so one side has two of the three.
\<close>

theorem majority_rule_never_hold:
  assumes "hybrid_indicators fmean ta data sma_short_window sma_long_window macd_fast macd_slow
             macd_signal adx_window atr_window
           = Inr (sma_short, sma_long, macd, macdsignal, adx, atr)"
    and "atr \<noteq> []"
    and "fgt (last atr) (Fin volatility_threshold)"
  shows "hybrid_trend_following_strategy fmean ta data sma_short_window sma_long_window macd_fast
           macd_slow macd_signal adx_window adx_threshold atr_window volatility_threshold
         \<noteq> Inr Hold \<and>
         consensus_trend_following_strategy fmean' ta' data' sma_short_window' sma_long_window'
           macd_fast' macd_slow' macd_signal' adx_window' adx_threshold'
         \<noteq> Inr Hold \<and>
         (\<forall>s1 s2 s3 v.
            hybrid_signals (sma_short, sma_long, macd, macdsignal, adx, atr) adx_threshold
              volatility_threshold = Inr (s1, s2, s3, v) \<longrightarrow>
            count_list [s1, s2, s3] Buy + count_list [s1, s2, s3] Sell = 3) \<and>
         (\<forall>s1 s2 s3.
            consensus_signals fmean' ta' data' sma_short_window' sma_long_window' macd_fast'
              macd_slow' macd_signal' adx_window' adx_threshold' = Inr (s1, s2, s3) \<longrightarrow>
            count_list [s1, s2, s3] Buy + count_list [s1, s2, s3] Sell = 3)"
proof (intro conjI)
  show "\<forall>s1 s2 s3 v.
          hybrid_signals (sma_short, sma_long, macd, macdsignal, adx, atr) adx_threshold
            volatility_threshold = Inr (s1, s2, s3, v) \<longrightarrow>
          count_list [s1, s2, s3] Buy + count_list [s1, s2, s3] Sell = 3"
    using hybrid_votes_total by blast
  show "\<forall>s1 s2 s3.
          consensus_signals fmean' ta' data' sma_short_window' sma_long_window' macd_fast'
            macd_slow' macd_signal' adx_window' adx_threshold' = Inr (s1, s2, s3) \<longrightarrow>
          count_list [s1, s2, s3] Buy + count_list [s1, s2, s3] Sell = 3"
    using consensus_votes_total by blast
  show "hybrid_trend_following_strategy fmean ta data sma_short_window sma_long_window macd_fast
           macd_slow macd_signal adx_window adx_threshold atr_window volatility_threshold
         \<noteq> Inr Hold"
  proof
    assume "hybrid_trend_following_strategy fmean ta data sma_short_window sma_long_window macd_fast
           macd_slow macd_signal adx_window adx_threshold atr_window volatility_threshold
         = Inr Hold"
    with assms(1) obtain s1 s2 s3 v where
      sg: "hybrid_signals (sma_short, sma_long, macd, macdsignal, adx, atr) adx_threshold
             volatility_threshold = Inr (s1, s2, s3, v)"
      and rule: "hybrid_rule (s1, s2, s3, v) = Hold"
      by (auto simp: hybrid_trend_following_strategy_def and_then_eq_Inr)
    from hybrid_signals_votes [OF sg] assms(3) obtain a b c where
      "s1 = vote a" "s2 = vote b" "s3 = vote c" "v = True"
      by auto
    with rule show False
      by (simp add: hybrid_rule_majority split: if_splits)
  qed
  show "consensus_trend_following_strategy fmean' ta' data' sma_short_window' sma_long_window'
           macd_fast' macd_slow' macd_signal' adx_window' adx_threshold'
         \<noteq> Inr Hold"
  proof
    assume "consensus_trend_following_strategy fmean' ta' data' sma_short_window' sma_long_window'
           macd_fast' macd_slow' macd_signal' adx_window' adx_threshold' = Inr Hold"
    then obtain s1 s2 s3 where
      sg: "consensus_signals fmean' ta' data' sma_short_window' sma_long_window' macd_fast' macd_slow'
             macd_signal' adx_window' adx_threshold' = Inr (s1, s2, s3)"
      and rule: "consensus_rule (s1, s2, s3) = Hold"
      by (auto simp: consensus_trend_following_strategy_def and_then_eq_Inr)
    from consensus_signals_votes [OF sg] obtain a b c where
      "s1 = vote a" "s2 = vote b" "s3 = vote c"
      by auto
    with rule show False
      by (simp add: consensus_rule_votes split: if_splits)
  qed
qed

theorem majority_rule_never_hold_witness:
  "fgt (last (replicate 250 (Fin 2))) (Fin 1) \<and>
   hybrid_trend_following_strategy exact_mean (const_talib (calm_readings\<lparr>atr_r := Fin 2\<rparr>))
     (flat_frame 250 100) 50 200 12 26 9 14 25 14 1 \<noteq> Inr Hold \<and>
   consensus_trend_following_strategy exact_mean (const_talib calm_readings) (flat_frame 250 100)
     50 200 12 26 9 14 25 \<noteq> Inr Hold"
proof -
  have ind: "hybrid_indicators exact_mean (const_talib (calm_readings\<lparr>atr_r := Fin 2\<rparr>))
      (flat_frame 250 100) 50 200 12 26 9 14 14
    = Inr (replicate 250 (Fin 100), replicate 250 (Fin 100), replicate 250 (Fin 0),
           replicate 250 (Fin 0), replicate 250 (Fin 20), replicate 250 (Fin 2))"
    by (simp add: flat_indicators exact_mean_flat calm_readings_def)
  have v: "fgt (last (replicate 250 (Fin 2))) (Fin 1)" and n: "replicate 250 (Fin 2) \<noteq> []"
    by simp_all
  show ?thesis
    using majority_rule_never_hold [OF ind n v] v by simp
qed

text \<open>
  Claim C8. The SMA vote of \<^verbatim>\<open>hybrid_trend_following_strategy\<close> (the first of its three
  votes) is \<^verbatim>\<open>'buy'\<close> when the latest short-window simple moving average of the close is
  strictly greater than the latest long-window one, and \<^verbatim>\<open>'sell'\<close> in every other case:
  there is no separate case for a tie. So whenever the two latest averages are equal, the
  vote is \<^verbatim>\<open>'sell'\<close>. The averages are the values the program computes and compares,
  \<^verbatim>\<open>sma_short.iloc[-1]\<close> and \<^verbatim>\<open>sma_long.iloc[-1]\<close>, for every computation of the rolling
  mean: two windows whose exact means are equal but whose computed means differ in the
  last place are not a tie.
\<close>

theorem sma_tie_votes_sell:
  assumes "hybrid_indicators fmean ta data sma_short_window sma_long_window macd_fast macd_slow
             macd_signal adx_window atr_window
           = Inr (sma_short, sma_long, macd, macdsignal, adx, atr)"
    and "sma_short \<noteq> []" and "sma_long \<noteq> []" and "macd \<noteq> []" and "macdsignal \<noteq> []"
    and "adx \<noteq> []" and "atr \<noteq> []"
  shows "map_result fst
           (hybrid_signals (sma_short, sma_long, macd, macdsignal, adx, atr) adx_threshold
              volatility_threshold)
         = Inr (if fgt (last sma_short) (last sma_long) then Buy else Sell) \<and>
         (last sma_short = last sma_long \<longrightarrow>
            map_result fst
              (hybrid_signals (sma_short, sma_long, macd, macdsignal, adx, atr) adx_threshold
                 volatility_threshold) = Inr Sell)"
proof -
  have "\<not> fgt (last sma_long) (last sma_long)"
    by (cases "last sma_long") simp_all
  with assms show ?thesis
    by (simp add: hybrid_signals_nonempty map_result_def vote_def)
qed

text \<open>
  The close flat at 100 for 250 bars, where the mean of a flat window is exactly 100: both
  averages are 100 and the vote is \<^verbatim>\<open>'sell'\<close>.
\<close>

theorem sma_tie_votes_sell_witness:
  "hybrid_indicators exact_mean (const_talib calm_readings) (flat_frame 250 100) 50 200 12 26 9 14 14
    = Inr (replicate 250 (Fin 100), replicate 250 (Fin 100), replicate 250 (Fin 0),
           replicate 250 (Fin 0), replicate 250 (Fin 20), replicate 250 (Fin (1/2))) \<and>
   last (replicate 250 (Fin 100)) = Fin 100 \<and>
   map_result fst
     (hybrid_signals (replicate 250 (Fin 100), replicate 250 (Fin 100), replicate 250 (Fin 0),
           replicate 250 (Fin 0), replicate 250 (Fin 20), replicate 250 (Fin (1/2))) 25 1)
    = Inr Sell"
proof -
  have ind: "hybrid_indicators exact_mean (const_talib calm_readings) (flat_frame 250 100)
      50 200 12 26 9 14 14
    = Inr (replicate 250 (Fin 100), replicate 250 (Fin 100), replicate 250 (Fin 0),
           replicate 250 (Fin 0), replicate 250 (Fin 20), replicate 250 (Fin (1/2)))"
    by (simp add: flat_indicators exact_mean_flat calm_readings_def)
  show ?thesis
    using sma_tie_votes_sell [OF ind, of 25 1] ind by simp
qed

section \<open>The sideways market strategy\<close>

lemma flat_frame_cols [simp]:
  "flat_frame n p ''High'' = Some (replicate n (Fin p))"
  "flat_frame n p ''Low'' = Some (replicate n (Fin p))"
  by (simp_all add: flat_frame_def)

lemma flat_frame_close [simp]: "flat_frame n p ''Close'' = Some (replicate n (Fin p))"
  by (simp add: flat_frame_def)

lemma sideways_logic_nonempty:
  assumes "data ''Close'' = Some close" and "close \<noteq> []" and "upperband \<noteq> []"
    and "lowerband \<noteq> []" and "rsi \<noteq> []" and "slowk \<noteq> []" and "slowd \<noteq> []"
  shows "sideways_logic data (upperband, middleband, lowerband, rsi, slowk, slowd) =
         Inr (if flt (last close) (last lowerband) \<or> flt (last rsi) (Fin 30) \<or>
                 (flt (last slowk) (Fin 20) \<and> fgt (last slowk) (last slowd)) then Buy
              else if fgt (last close) (last upperband) \<or> fgt (last rsi) (Fin 70) \<or>
                 (fgt (last slowk) (Fin 80) \<and> flt (last slowk) (last slowd)) then Sell
              else Hold)"
  using assms by (simp add: sideways_logic_def)

text \<open>
  Claim C6, as the code has it. \<^verbatim>\<open>sideways_market_strategy\<close> combines its triggers with
  \<^verbatim>\<open>or\<close>, and tests the buy triggers first: it returns \<^verbatim>\<open>'buy'\<close> if any of
  (close below the lower band, RSI below 30, \<open>%K\<close> below 20 and above \<open>%D\<close>) holds; it returns
  \<^verbatim>\<open>'sell'\<close> if none of those holds and any of (close above the upper band, RSI above 70,
  \<open>%K\<close> above 80 and below \<open>%D\<close>) holds; it returns \<^verbatim>\<open>'hold'\<close> otherwise.
\<close>

theorem sideways_market_strategy_cases:
  assumes "sideways_indicators ta data bbands_period rsi_period stochastic_period
             stochastic_slowk stochastic_slowd
           = Inr (upperband, middleband, lowerband, rsi, slowk, slowd)"
    and "data ''Close'' = Some close" and "close \<noteq> []" and "upperband \<noteq> []"
    and "lowerband \<noteq> []" and "rsi \<noteq> []" and "slowk \<noteq> []" and "slowd \<noteq> []"
    and "buy_trigger \<longleftrightarrow>
           flt (last close) (last lowerband) \<or> flt (last rsi) (Fin 30) \<or>
           (flt (last slowk) (Fin 20) \<and> fgt (last slowk) (last slowd))"
    and "sell_trigger \<longleftrightarrow>
           fgt (last close) (last upperband) \<or> fgt (last rsi) (Fin 70) \<or>
           (fgt (last slowk) (Fin 80) \<and> flt (last slowk) (last slowd))"
    and "result = sideways_market_strategy ta data bbands_period rsi_period stochastic_period
                    stochastic_slowk stochastic_slowd"
  shows "(buy_trigger \<longrightarrow> result = Inr Buy) \<and>
         (\<not> buy_trigger \<and> sell_trigger \<longrightarrow> result = Inr Sell) \<and>
         (\<not> buy_trigger \<and> \<not> sell_trigger \<longrightarrow> result = Inr Hold)"
  using assms
  by (simp add: sideways_market_strategy_def sideways_logic_nonempty)

lemma flat_sideways_indicators:
  "sideways_indicators (const_talib r) (flat_frame n p) bbands_period rsi_period
     stochastic_period stochastic_slowk stochastic_slowd
   = Inr (replicate n (upper_r r), replicate n (middle_r r), replicate n (lower_r r),
          replicate n (rsi_r r), replicate n (slowk_r r), replicate n (slowd_r r))"
  by (simp add: sideways_indicators_def flat_frame_def const_series_def)

text \<open>
  A sell trigger does not always sell. With the close inside the bands, an RSI of 75 and
  \<open>%K\<close> = 10 above \<open>%D\<close> = 5, the RSI sell trigger and the stochastic buy trigger both
  hold, and the strategy returns \<^verbatim>\<open>'buy'\<close>.
\<close>

theorem sideways_sell_trigger_counterexample:
  "sideways_indicators (const_talib (calm_readings\<lparr>rsi_r := Fin 75, slowk_r := Fin 10,
       slowd_r := Fin 5\<rparr>)) (flat_frame 3 100) 20 14 14 3 3
     = Inr (replicate 3 (Fin 102), replicate 3 (Fin 100), replicate 3 (Fin 98),
            replicate 3 (Fin 75), replicate 3 (Fin 10), replicate 3 (Fin 5)) \<and>
   fgt (last (replicate 3 (Fin 75))) (Fin 70) \<and>
   sideways_market_strategy (const_talib (calm_readings\<lparr>rsi_r := Fin 75, slowk_r := Fin 10,
       slowd_r := Fin 5\<rparr>)) (flat_frame 3 100) 20 14 14 3 3 = Inr Buy"
  by (simp add: sideways_market_strategy_def flat_sideways_indicators sideways_logic_nonempty
      calm_readings_def)

text \<open>An RSI of 75 with no buy trigger: the strategy sells.\<close>

theorem sideways_market_strategy_cases_witness:
  "fgt (last (replicate 3 (Fin 75))) (Fin 70) \<and>
   sideways_market_strategy (const_talib (calm_readings\<lparr>rsi_r := Fin 75\<rparr>))
     (flat_frame 3 100) 20 14 14 3 3 = Inr Sell"
proof -
  have ind: "sideways_indicators (const_talib (calm_readings\<lparr>rsi_r := Fin 75\<rparr>))
      (flat_frame 3 100) 20 14 14 3 3
     = Inr (replicate 3 (Fin 102), replicate 3 (Fin 100), replicate 3 (Fin 98),
            replicate 3 (Fin 75), replicate 3 (Fin 50), replicate 3 (Fin 50))"
    by (simp add: flat_sideways_indicators calm_readings_def)
  show ?thesis
    using sideways_market_strategy_cases [OF ind flat_frame_close _ _ _ _ _ _ refl refl refl]
    by simp
qed


section \<open>The volatile market strategy\<close>

lemma volatile_logic_nonempty:
  assumes "data ''Close'' = Some close" and "close \<noteq> []" and "atr \<noteq> []"
    and "upperband \<noteq> []" and "lowerband \<noteq> []" and "rsi \<noteq> []"
  shows "volatile_logic data (atr, upperband, middleband, lowerband, rsi) rsi_overbought
           rsi_oversold atr_multiplier =
         Inr (if flt (last rsi) (Fin rsi_oversold) \<and> flt (last close) (last lowerband) then
                \<lparr>action = Buy,
                 stop_loss = Some (fsub (last close) (fmul (Fin atr_multiplier) (last atr)))\<rparr>
              else if fgt (last rsi) (Fin rsi_overbought) \<and> fgt (last close) (last upperband) then
                \<lparr>action = Sell,
                 stop_loss = Some (fadd (last close) (fmul (Fin atr_multiplier) (last atr)))\<rparr>
              else \<lparr>action = Hold, stop_loss = None\<rparr>)"
  using assms by (simp add: volatile_logic_def)

lemma volatile_hold_no_stop:
  assumes "volatile_market_strategy ta data atr_period bbands_period bbands_std_dev rsi_period
             rsi_overbought rsi_oversold atr_multiplier = Inr r"
    and "action r = Hold"
  shows "stop_loss r = None"
  using assms
  by (auto simp: volatile_market_strategy_def volatile_logic_def and_then_eq_Inr
      split: prod.splits if_splits)

lemma not_oversold_and_overbought: "\<not> (flt x (Fin 30) \<and> fgt x (Fin 70))"
  by (cases x) simp_all

text \<open>
  Claim C5. With its default thresholds, \<^verbatim>\<open>volatile_market_strategy\<close> returns
  \<^verbatim>\<open>'buy'\<close> exactly when the RSI is below 30 and the close is below the lower band, and
  then the stop-loss is the close minus 1.5 times the ATR; it returns \<^verbatim>\<open>'sell'\<close> exactly
  when the RSI is above 70 and the close is above the upper band, and then the stop-loss
  is the close plus 1.5 times the ATR; otherwise it returns \<^verbatim>\<open>'hold'\<close> with no
  stop-loss. Whatever the thresholds and the multiplier, a \<^verbatim>\<open>'hold'\<close> never carries a
  stop-loss.
\<close>

theorem volatile_market_strategy_cases:
  assumes "volatile_indicators ta data atr_period bbands_period bbands_std_dev rsi_period
           = Inr (atr, upperband, middleband, lowerband, rsi)"
    and "data ''Close'' = Some close" and "close \<noteq> []" and "atr \<noteq> []"
    and "upperband \<noteq> []" and "lowerband \<noteq> []" and "rsi \<noteq> []"
    and "buy_cond \<longleftrightarrow> flt (last rsi) (Fin 30) \<and> flt (last close) (last lowerband)"
    and "sell_cond \<longleftrightarrow> fgt (last rsi) (Fin 70) \<and> fgt (last close) (last upperband)"
  shows "(\<exists>r. volatile_market_strategy ta data atr_period bbands_period bbands_std_dev rsi_period
               70 30 (3/2) = Inr r \<and>
             (action r = Buy \<longleftrightarrow> buy_cond) \<and>
             (action r = Sell \<longleftrightarrow> sell_cond) \<and>
             (action r = Hold \<longleftrightarrow> \<not> buy_cond \<and> \<not> sell_cond) \<and>
             (action r = Buy \<longrightarrow>
                stop_loss r = Some (fsub (last close) (fmul (Fin (3/2)) (last atr)))) \<and>
             (action r = Sell \<longrightarrow>
                stop_loss r = Some (fadd (last close) (fmul (Fin (3/2)) (last atr)))) \<and>
             (action r = Hold \<longrightarrow> stop_loss r = None)) \<and>
         (\<forall>rsi_overbought rsi_oversold atr_multiplier r.
             volatile_market_strategy ta data atr_period bbands_period bbands_std_dev rsi_period
               rsi_overbought rsi_oversold atr_multiplier = Inr r \<and> action r = Hold \<longrightarrow>
             stop_loss r = None)"
proof
  show "\<exists>r. volatile_market_strategy ta data atr_period bbands_period bbands_std_dev rsi_period
               70 30 (3/2) = Inr r \<and>
             (action r = Buy \<longleftrightarrow> buy_cond) \<and>
             (action r = Sell \<longleftrightarrow> sell_cond) \<and>
             (action r = Hold \<longleftrightarrow> \<not> buy_cond \<and> \<not> sell_cond) \<and>
             (action r = Buy \<longrightarrow>
                stop_loss r = Some (fsub (last close) (fmul (Fin (3/2)) (last atr)))) \<and>
             (action r = Sell \<longrightarrow>
                stop_loss r = Some (fadd (last close) (fmul (Fin (3/2)) (last atr)))) \<and>
             (action r = Hold \<longrightarrow> stop_loss r = None)"
    using assms not_oversold_and_overbought [of "last rsi"]
    by (auto simp: volatile_market_strategy_def volatile_logic_nonempty)
  show "\<forall>rsi_overbought rsi_oversold atr_multiplier r.
           volatile_market_strategy ta data atr_period bbands_period bbands_std_dev rsi_period
             rsi_overbought rsi_oversold atr_multiplier = Inr r \<and> action r = Hold \<longrightarrow>
           stop_loss r = None"
    using volatile_hold_no_stop by blast
qed

lemma flat_volatile_indicators:
  "volatile_indicators (const_talib r) (flat_frame n p) atr_period bbands_period bbands_std_dev
     rsi_period
   = Inr (replicate n (atr_r r), replicate n (upper_r r), replicate n (middle_r r),
          replicate n (lower_r r), replicate n (rsi_r r))"
  by (simp add: volatile_indicators_def flat_frame_def const_series_def)

text \<open>
  A close of 100 below the lower band 101, an RSI of 25 and an ATR of 2: a \<^verbatim>\<open>'buy'\<close>
  with the stop-loss at 97.
\<close>

theorem volatile_market_strategy_cases_witness:
  "flt (last (replicate 3 (Fin 25))) (Fin 30) \<and>
   flt (last (replicate 3 (Fin 100))) (last (replicate 3 (Fin 101))) \<and>
   volatile_market_strategy
     (const_talib (calm_readings\<lparr>rsi_r := Fin 25, lower_r := Fin 101, atr_r := Fin 2\<rparr>))
     (flat_frame 3 100) 14 20 2 14 70 30 (3/2)
   = Inr \<lparr>action = Buy, stop_loss = Some (Fin 97)\<rparr>"
proof -
  have ind: "volatile_indicators
      (const_talib (calm_readings\<lparr>rsi_r := Fin 25, lower_r := Fin 101, atr_r := Fin 2\<rparr>))
      (flat_frame 3 100) 14 20 2 14
     = Inr (replicate 3 (Fin 2), replicate 3 (Fin 102), replicate 3 (Fin 100),
            replicate 3 (Fin 101), replicate 3 (Fin 25))"
    by (simp add: flat_volatile_indicators calm_readings_def)
  show ?thesis
    using volatile_market_strategy_cases [OF ind flat_frame_close _ _ _ _ _ refl refl]
    by auto
qed

section \<open>The default strategy\<close>

lemma default_logic_nonempty:
  assumes "data ''Close'' = Some close" and "close \<noteq> []" and "macd \<noteq> []"
    and "macdsignal \<noteq> []" and "rsi \<noteq> []" and "sar \<noteq> []"
  shows "default_logic data (macd, macdsignal, rsi, sar) rsi_overbought rsi_oversold =
         Inr (if fgt (last macd) (last macdsignal) \<and> flt (last rsi) (Fin rsi_oversold) \<and>
                 fgt (last close) (last sar) then Buy
              else if flt (last macd) (last macdsignal) \<and> fgt (last rsi) (Fin rsi_overbought) \<and>
                 flt (last close) (last sar) then Sell
              else Hold)"
  using assms by (simp add: default_logic_def)

lemma not_fgt_and_flt: "\<not> (fgt x y \<and> flt x y)"
  by (cases x; cases y) simp_all

text \<open>
  Claim C7. \<^verbatim>\<open>default_strategy\<close> returns \<^verbatim>\<open>'buy'\<close> exactly when the MACD is above its
  signal, the RSI is below 30 and the close is above the SAR, and \<^verbatim>\<open>'sell'\<close> exactly
  when the MACD is below its signal, the RSI is above 70 and the close is below the SAR.
  When one of the three conditions of a side is false and the other two hold, the result
  is \<^verbatim>\<open>'hold'\<close>: no majority decides.
\<close>

theorem default_strategy_consensus:
  assumes "default_indicators ta data macd_fast macd_slow macd_signal rsi_period sar_step
             sar_maximum = Inr (macd, macdsignal, rsi, sar)"
    and "data ''Close'' = Some close" and "close \<noteq> []" and "macd \<noteq> []"
    and "macdsignal \<noteq> []" and "rsi \<noteq> []" and "sar \<noteq> []"
    and "macd_cross_up \<longleftrightarrow> fgt (last macd) (last macdsignal)"
    and "rsi_is_oversold \<longleftrightarrow> flt (last rsi) (Fin 30)"
    and "price_above_sar \<longleftrightarrow> fgt (last close) (last sar)"
    and "macd_cross_down \<longleftrightarrow> flt (last macd) (last macdsignal)"
    and "rsi_is_overbought \<longleftrightarrow> fgt (last rsi) (Fin 70)"
    and "price_below_sar \<longleftrightarrow> flt (last close) (last sar)"
    and "result = default_strategy ta data macd_fast macd_slow macd_signal rsi_period 70 30
                    sar_step sar_maximum"
  shows "(result = Inr Buy \<longleftrightarrow> macd_cross_up \<and> rsi_is_oversold \<and> price_above_sar) \<and>
         (result = Inr Sell \<longleftrightarrow> macd_cross_down \<and> rsi_is_overbought \<and> price_below_sar) \<and>
         (\<not> macd_cross_up \<and> rsi_is_oversold \<and> price_above_sar \<longrightarrow> result = Inr Hold) \<and>
         (macd_cross_up \<and> \<not> rsi_is_oversold \<and> price_above_sar \<longrightarrow> result = Inr Hold) \<and>
         (macd_cross_up \<and> rsi_is_oversold \<and> \<not> price_above_sar \<longrightarrow> result = Inr Hold) \<and>
         (\<not> macd_cross_down \<and> rsi_is_overbought \<and> price_below_sar \<longrightarrow> result = Inr Hold) \<and>
         (macd_cross_down \<and> \<not> rsi_is_overbought \<and> price_below_sar \<longrightarrow> result = Inr Hold) \<and>
         (macd_cross_down \<and> rsi_is_overbought \<and> \<not> price_below_sar \<longrightarrow> result = Inr Hold)"
  using assms not_fgt_and_flt [of "last macd" "last macdsignal"]
    not_fgt_and_flt [of "last close" "last sar"]
    not_oversold_and_overbought [of "last rsi"]
  by (auto simp: default_strategy_def default_logic_nonempty)


lemma flat_default_indicators:
  "default_indicators (const_talib r) (flat_frame n p) macd_fast macd_slow macd_signal
     rsi_period sar_step sar_maximum
   = Inr (replicate n (macd_r r), replicate n (macdsignal_r r), replicate n (rsi_r r),
          replicate n (sar_r r))"
  by (simp add: default_indicators_def flat_frame_def const_series_def)

text \<open>
  MACD 1 above signal 0, close 100 above SAR 99: an RSI of 25 buys, and the same window
  with an RSI of 50 holds.
\<close>

theorem default_strategy_consensus_witness:
  "default_strategy
     (const_talib (calm_readings\<lparr>macd_r := Fin 1, rsi_r := Fin 25, sar_r := Fin 99\<rparr>))
     (flat_frame 3 100) 12 26 9 14 70 30 (2/100) (2/10) = Inr Buy \<and>
   \<not> flt (last (replicate 3 (Fin 50))) (Fin 30) \<and>
   default_strategy
     (const_talib (calm_readings\<lparr>macd_r := Fin 1, rsi_r := Fin 50, sar_r := Fin 99\<rparr>))
     (flat_frame 3 100) 12 26 9 14 70 30 (2/100) (2/10) = Inr Hold"
proof -
  have buy: "default_indicators
      (const_talib (calm_readings\<lparr>macd_r := Fin 1, rsi_r := Fin 25, sar_r := Fin 99\<rparr>))
      (flat_frame 3 100) 12 26 9 14 (2/100) (2/10)
     = Inr (replicate 3 (Fin 1), replicate 3 (Fin 0), replicate 3 (Fin 25),
            replicate 3 (Fin 99))"
    by (simp add: flat_default_indicators calm_readings_def)
  have flipped: "default_indicators
      (const_talib (calm_readings\<lparr>macd_r := Fin 1, rsi_r := Fin 50, sar_r := Fin 99\<rparr>))
      (flat_frame 3 100) 12 26 9 14 (2/100) (2/10)
     = Inr (replicate 3 (Fin 1), replicate 3 (Fin 0), replicate 3 (Fin 50),
            replicate 3 (Fin 99))"
    by (simp add: flat_default_indicators calm_readings_def)
  show ?thesis
    using
      default_strategy_consensus [OF buy flat_frame_close _ _ _ _ _ refl refl refl refl refl
        refl refl]
      default_strategy_consensus [OF flipped flat_frame_close _ _ _ _ _ refl refl refl refl
        refl refl refl]
    by simp
qed

section \<open>The regime classifier inside the lookback\<close>

lemma last_series_binop_cases:
  "xs \<noteq> [] \<or> ys \<noteq> [] \<Longrightarrow>
   last (series_binop f xs ys) = (if length xs = length ys then f (last xs) (last ys) else NaN)"
proof (induction f xs ys rule: series_binop.induct)
  case (2 f x xs)
  then show ?case by (cases xs) simp_all
next
  case (3 f y ys)
  then show ?case by (cases ys) simp_all
next
  case (4 f x xs y ys)
  then show ?case by (cases xs; cases ys) simp_all
qed simp

lemma fdiv_NaN [simp]: "fdiv x NaN = NaN"
  by (cases x) simp_all

lemma last_width_NaN:
  assumes "middleband \<noteq> []" and "last middleband = NaN"
  shows "series_binop fdiv d middleband \<noteq> [] \<and> last (series_binop fdiv d middleband) = NaN"
proof
  show "series_binop fdiv d middleband \<noteq> []"
    using assms(1) by (cases d; cases middleband) simp_all
  show "last (series_binop fdiv d middleband) = NaN"
    using assms by (simp add: last_series_binop_cases)
qed

lemma rolling_mean_default_returns:
  "0 \<le> w \<Longrightarrow> \<exists>ys. rolling_mean fmean w None xs = Inr ys"
  by (simp add: rolling_mean_def)

lemma latest_smoothed_warmup:
  assumes "data ''High'' = Some high" and "data ''Low'' = Some low"
    and "data ''Close'' = Some close"
    and "ADX ta high low close adx_window = Inr adx"
    and "BBANDS ta close bbands_window 2 2 = Inr (upperband, middleband, lowerband)"
    and "0 < smoothing_window"
    and "adx \<noteq> []" and "last adx = NaN"
    and "middleband \<noteq> []" and "last middleband = NaN"
  shows "latest_smoothed fmean ta data adx_window bbands_window smoothing_window = Inr (NaN, NaN)"
proof -
  let ?width = "series_binop fdiv (series_binop fsub upperband lowerband) middleband"
  from assms(6) obtain sa where sa: "rolling_mean fmean smoothing_window None adx = Inr sa"
    using rolling_mean_default_returns [of smoothing_window fmean adx] by auto
  from assms(6) obtain sw where sw: "rolling_mean fmean smoothing_window None ?width = Inr sw"
    using rolling_mean_default_returns [of smoothing_window fmean ?width] by auto
  have a: "sa \<noteq> [] \<and> last sa = NaN"
    using rolling_mean_last_NaN [OF sa assms(6) assms(7) assms(8)] .
  have w: "sw \<noteq> [] \<and> last sw = NaN"
    using rolling_mean_last_NaN [OF sw assms(6)] last_width_NaN [OF assms(9) assms(10)]
    by simp
  show ?thesis
    using assms(1-5) sa sw a w by (simp add: latest_smoothed_def)
qed

text \<open>
  Claim C9, as the code has it. \<^verbatim>\<open>identify_market_condition\<close> has no check on the number
  of bars and no insufficient-data error. Whatever the length of the window, when the
  columns are present, the indicator library returns series whose latest ADX and latest
  middle band are not-a-number (as they are inside the lookback) and the smoothing window
  is positive, it returns \<^verbatim>\<open>'sideways'\<close>.
\<close>

theorem identify_market_condition_warmup:
  assumes "data ''High'' = Some high" and "data ''Low'' = Some low"
    and "data ''Close'' = Some close"
    and "ADX ta high low close adx_window = Inr adx"
    and "BBANDS ta close bbands_window 2 2 = Inr (upperband, middleband, lowerband)"
    and "0 < smoothing_window"
    and "adx \<noteq> []" and "last adx = NaN"
    and "middleband \<noteq> []" and "last middleband = NaN"
  shows "identify_market_condition fmean ta data adx_window bbands_window smoothing_window
         = Inr ''sideways''"
  using latest_smoothed_warmup [OF assms]
  by (simp add: identify_market_condition_def market_condition_of_def)

text \<open>Five bars, every indicator still not-a-number.\<close>

theorem identify_market_condition_warmup_witness:
  "length (replicate 5 (Fin 100)) < 200 \<and>
   identify_market_condition exact_mean (const_talib warmup_readings) (flat_frame 5 100) 14 20 5
     = Inr ''sideways''"
proof -
  let ?p = "replicate 5 (Fin 100)"
  have adx: "ADX (const_talib warmup_readings) ?p ?p ?p 14 = Inr (replicate 5 NaN)"
    by (simp add: const_series_def warmup_readings_def)
  have bb: "BBANDS (const_talib warmup_readings) ?p 20 2 2
            = Inr (replicate 5 NaN, replicate 5 NaN, replicate 5 NaN)"
    by (simp add: const_series_def warmup_readings_def)
  show ?thesis
    using identify_market_condition_warmup
      [OF flat_frame_cols(1) flat_frame_cols(2) flat_frame_close adx bb]
    by simp
qed

text \<open>
  A window of 10 bars, fewer than the 200 of the longest lookback, on which every indicator
  is still not-a-number: the classifier does not fail, it returns \<^verbatim>\<open>'sideways'\<close>.
\<close>

theorem short_window_classified_counterexample:
  "flat_frame 10 100 ''Close'' = Some (replicate 10 (Fin 100)) \<and>
   length (replicate 10 (Fin 100)) < 200 \<and>
   identify_market_condition exact_mean (const_talib warmup_readings) (flat_frame 10 100) 14 20 5
     = Inr ''sideways''"
proof -
  let ?p = "replicate 10 (Fin 100)"
  have adx: "ADX (const_talib warmup_readings) ?p ?p ?p 14 = Inr (replicate 10 NaN)"
    by (simp add: const_series_def warmup_readings_def)
  have bb: "BBANDS (const_talib warmup_readings) ?p 20 2 2
            = Inr (replicate 10 NaN, replicate 10 NaN, replicate 10 NaN)"
    by (simp add: const_series_def warmup_readings_def)
  have "latest_smoothed exact_mean (const_talib warmup_readings) (flat_frame 10 100) 14 20 5
        = Inr (NaN, NaN)"
    using latest_smoothed_warmup
      [OF flat_frame_cols(1) flat_frame_cols(2) flat_frame_close adx bb]
    by simp
  then show ?thesis
    by (simp add: identify_market_condition_def market_condition_of_def)
qed

end
